theory Spec2Isabelle
  imports Complex_Main
begin

section \<open>Chart kinds, data types and the static advice tables\<close>

text \<open>
  The source declares the chart kinds as the string-literal union
  \<^verbatim>\<open>'pie' | 'bar' | 'line' | 'area'\<close> and the data type (the shape of a table) as
  \<^verbatim>\<open>'auto' | 'category' | 'timeseries' | 'multiseries'\<close> in the detection module, and as
  \<^verbatim>\<open>'category' | 'timeseries' | 'multiseries'\<close> in the older, manual-only module.
  Both unions are closed, so each becomes a datatype.
\<close>

datatype ChartKind = Pie | Bar | Line | Area

datatype DataType = Auto | Category | Timeseries | Multiseries

datatype ManualDataType = MCategory | MTimeseries | MMultiseries

datatype Confidence = High | Medium | Low

record Suitability =
  suitable :: bool
  reason :: string

text \<open>
  \<^verbatim>\<open>getChartSuitability(chartType, dataType)\<close> of the detection module: the literal
  \<^verbatim>\<open>suitabilityMatrix[dataType][chartType]\<close>, one row per data type.
\<close>

fun getChartSuitability :: "ChartKind \<Rightarrow> DataType \<Rightarrow> Suitability" where
  "getChartSuitability Pie Auto =
     \<lparr>suitable = True, reason = ''Auto-detect akan menentukan kesesuaian''\<rparr>"
| "getChartSuitability Bar Auto =
     \<lparr>suitable = True, reason = ''Auto-detect akan menentukan kesesuaian''\<rparr>"
| "getChartSuitability Line Auto =
     \<lparr>suitable = True, reason = ''Auto-detect akan menentukan kesesuaian''\<rparr>"
| "getChartSuitability Area Auto =
     \<lparr>suitable = True, reason = ''Auto-detect akan menentukan kesesuaian''\<rparr>"
| "getChartSuitability Pie Category =
     \<lparr>suitable = True, reason = ''Ideal untuk melihat proporsi/persentase tiap kategori''\<rparr>"
| "getChartSuitability Bar Category =
     \<lparr>suitable = True, reason = ''Bagus untuk membandingkan nilai antar kategori''\<rparr>"
| "getChartSuitability Line Category =
     \<lparr>suitable = False, reason = ''Tidak cocok - data tidak memiliki kontinuitas waktu''\<rparr>"
| "getChartSuitability Area Category =
     \<lparr>suitable = False, reason = ''Tidak cocok - data tidak memiliki kontinuitas waktu''\<rparr>"
| "getChartSuitability Pie Timeseries =
     \<lparr>suitable = False, reason = ''Tidak cocok - pie chart untuk proporsi, bukan tren waktu''\<rparr>"
| "getChartSuitability Bar Timeseries =
     \<lparr>suitable = True, reason = ''Bisa digunakan untuk melihat perubahan per periode''\<rparr>"
| "getChartSuitability Line Timeseries =
     \<lparr>suitable = True, reason = ''Ideal untuk melihat tren dan pola perubahan''\<rparr>"
| "getChartSuitability Area Timeseries =
     \<lparr>suitable = True, reason = ''Bagus untuk melihat volume dan akumulasi''\<rparr>"
| "getChartSuitability Pie Multiseries =
     \<lparr>suitable = False, reason = ''Tidak cocok - pie chart hanya untuk 1 series''\<rparr>"
| "getChartSuitability Bar Multiseries =
     \<lparr>suitable = True, reason = ''Bagus untuk membandingkan nilai antar series''\<rparr>"
| "getChartSuitability Line Multiseries =
     \<lparr>suitable = True, reason = ''Ideal untuk membandingkan tren multiple series''\<rparr>"
| "getChartSuitability Area Multiseries =
     \<lparr>suitable = True, reason = ''Bagus untuk melihat kontribusi tiap series (stacked)''\<rparr>"

text \<open>
  The manual-only module holds an earlier \<^verbatim>\<open>getChartSuitability\<close> over the three stored
  shapes; its matrix differs from the one above only in two reason strings.
\<close>

fun getChartSuitability_manual :: "ChartKind \<Rightarrow> ManualDataType \<Rightarrow> Suitability" where
  "getChartSuitability_manual Pie MCategory =
     \<lparr>suitable = True, reason = ''Ideal untuk melihat proporsi/persentase tiap kategori''\<rparr>"
| "getChartSuitability_manual Bar MCategory =
     \<lparr>suitable = True, reason = ''Bagus untuk membandingkan nilai antar kategori''\<rparr>"
| "getChartSuitability_manual Line MCategory =
     \<lparr>suitable = False,
      reason = ''Tidak cocok - data kategori tidak memiliki kontinuitas waktu''\<rparr>"
| "getChartSuitability_manual Area MCategory =
     \<lparr>suitable = False,
      reason = ''Tidak cocok - data kategori tidak memiliki kontinuitas waktu''\<rparr>"
| "getChartSuitability_manual Pie MTimeseries =
     \<lparr>suitable = False, reason = ''Tidak cocok - pie chart untuk proporsi, bukan tren waktu''\<rparr>"
| "getChartSuitability_manual Bar MTimeseries =
     \<lparr>suitable = True, reason = ''Bisa digunakan untuk melihat perubahan per periode''\<rparr>"
| "getChartSuitability_manual Line MTimeseries =
     \<lparr>suitable = True, reason = ''Ideal untuk melihat tren dan pola perubahan''\<rparr>"
| "getChartSuitability_manual Area MTimeseries =
     \<lparr>suitable = True, reason = ''Bagus untuk melihat volume dan akumulasi''\<rparr>"
| "getChartSuitability_manual Pie MMultiseries =
     \<lparr>suitable = False, reason = ''Tidak cocok - pie chart hanya untuk 1 series''\<rparr>"
| "getChartSuitability_manual Bar MMultiseries =
     \<lparr>suitable = True, reason = ''Bagus untuk membandingkan nilai antar series''\<rparr>"
| "getChartSuitability_manual Line MMultiseries =
     \<lparr>suitable = True, reason = ''Ideal untuk membandingkan tren multiple series''\<rparr>"
| "getChartSuitability_manual Area MMultiseries =
     \<lparr>suitable = True, reason = ''Bagus untuk melihat kontribusi tiap series (stacked)''\<rparr>"

text \<open>
  \<^verbatim>\<open>getRecommendedCharts(dataType)\<close>: a \<^verbatim>\<open>switch\<close> on the data type whose
  \<^verbatim>\<open>default\<close> arm (reached by \<^verbatim>\<open>'auto'\<close>) recommends every chart; the charts not
  recommended are \<^verbatim>\<open>allCharts.filter(chart => !recommended.includes(chart))\<close>.
\<close>

record Recommendation =
  recommended :: "ChartKind list"
  notRecommended :: "ChartKind list"

definition allCharts :: "ChartKind list" where
  "allCharts = [Pie, Bar, Line, Area]"

definition getRecommendedCharts :: "DataType \<Rightarrow> Recommendation" where
  "getRecommendedCharts dataType =
     (let recommended = (case dataType of
                           Category \<Rightarrow> [Pie, Bar]
                         | Timeseries \<Rightarrow> [Line, Area, Bar]
                         | Multiseries \<Rightarrow> [Line, Area, Bar]
                         | Auto \<Rightarrow> allCharts);
          notRecommended = filter (\<lambda>chart. \<not> List.member recommended chart) allCharts
      in \<lparr>recommended = recommended, notRecommended = notRecommended\<rparr>)"

section \<open>JavaScript values: cells, numbers and \<^verbatim>\<open>Number(...)\<close>\<close>

text \<open>
  A cell has the TypeScript type \<^verbatim>\<open>string | number\<close>; reading a key that a row does not
  hold gives \<^verbatim>\<open>undefined\<close>, which is \<open>None\<close> below. A JavaScript number is an IEEE double.
  The model keeps what the code observes of it: whether it is \<^verbatim>\<open>NaN\<close>, whether it is zero
  (both are falsy under \<^verbatim>\<open>||\<close>), the two infinities, and otherwise its value, taken as the
  exact rational the literal denotes. Rounding to 53 bits, overflow of huge literals and the
  sign of zero are not modelled; no claim below depends on them. Strings are lists of
  8-bit characters, so only the ASCII white space of the language is covered.
\<close>

datatype jsnum = NaN | PosInf | NegInf | Fin rat

datatype jsval = Str string | Num jsnum

type_synonym Row = "string \<Rightarrow> jsval option"

definition isNaN :: "jsnum \<Rightarrow> bool" where
  "isNaN n = (n = NaN)"

text \<open>Truthiness of a number under \<^verbatim>\<open>||\<close>: everything but \<^verbatim>\<open>NaN\<close> and zero.\<close>

definition truthyNum :: "jsnum \<Rightarrow> bool" where
  "truthyNum n = (n \<noteq> NaN \<and> n \<noteq> Fin 0)"

fun negate :: "jsnum \<Rightarrow> jsnum" where
  "negate NaN = NaN"
| "negate PosInf = NegInf"
| "negate NegInf = PosInf"
| "negate (Fin q) = Fin (- q)"

subsection \<open>The grammar of numeric strings\<close>

text \<open>
  \<^verbatim>\<open>Number(s)\<close> on a string follows the language's \<^verbatim>\<open>StringNumericLiteral\<close> grammar:
  white space is trimmed on both sides; what is left is empty (the value is 0), or a
  binary, octal or hexadecimal integer with its \<^verbatim>\<open>0b\<close>, \<^verbatim>\<open>0o\<close>, \<^verbatim>\<open>0x\<close> prefix and no
  sign, or an optionally signed decimal literal (\<^verbatim>\<open>Infinity\<close>, or digits with an optional
  fraction and exponent; one of the integer and fraction parts may be empty, not both).
  Anything else is \<^verbatim>\<open>NaN\<close>.
\<close>

definition isStrWhiteSpace :: "char \<Rightarrow> bool" where
  "isStrWhiteSpace c =
     (let n = (of_char c :: nat) in n = 9 \<or> n = 10 \<or> n = 11 \<or> n = 12 \<or> n = 13 \<or> n = 32)"

definition trim :: "string \<Rightarrow> string" where
  "trim s = rev (dropWhile isStrWhiteSpace (rev (dropWhile isStrWhiteSpace s)))"

definition digitOf :: "nat \<Rightarrow> char \<Rightarrow> nat option" where
  "digitOf base c =
     (let n = (of_char c :: nat);
          v = (if 48 \<le> n \<and> n \<le> 57 then Some (n - 48)
               else if 97 \<le> n \<and> n \<le> 102 then Some (n - 87)
               else if 65 \<le> n \<and> n \<le> 70 then Some (n - 55)
               else None)
      in case v of None \<Rightarrow> None | Some d \<Rightarrow> if d < base then Some d else None)"

definition isDecimalDigit :: "char \<Rightarrow> bool" where
  "isDecimalDigit c = (digitOf 10 c \<noteq> None)"

fun digitsValue :: "nat \<Rightarrow> nat \<Rightarrow> string \<Rightarrow> nat option" where
  "digitsValue base acc [] = Some acc"
| "digitsValue base acc (c # cs) =
     (case digitOf base c of
        None \<Rightarrow> None
      | Some d \<Rightarrow> digitsValue base (acc * base + d) cs)"

text \<open>One or more digits of the base, read most significant first.\<close>

definition digitsOpt :: "nat \<Rightarrow> string \<Rightarrow> nat option" where
  "digitsOpt base ds = (if ds = [] then None else digitsValue base 0 ds)"

definition startsWith :: "string \<Rightarrow> char \<Rightarrow> bool" where
  "startsWith s c = (case s of [] \<Rightarrow> False | x # _ \<Rightarrow> x = c)"

definition nonDecimalIntegerLiteral :: "string \<Rightarrow> nat option" where
  "nonDecimalIntegerLiteral t =
     (case t of
        z # p # ds \<Rightarrow>
          if z \<noteq> CHR ''0'' then None
          else if p = CHR ''x'' \<or> p = CHR ''X'' then digitsOpt 16 ds
          else if p = CHR ''o'' \<or> p = CHR ''O'' then digitsOpt 8 ds
          else if p = CHR ''b'' \<or> p = CHR ''B'' then digitsOpt 2 ds
          else None
      | _ \<Rightarrow> None)"

text \<open>
  The exponent part: absent (exponent 0), or \<^verbatim>\<open>e\<close>/\<^verbatim>\<open>E\<close>, an optional sign and one or
  more digits. \<open>None\<close> when the rest of the string is neither.
\<close>

definition exponentPart :: "string \<Rightarrow> int option" where
  "exponentPart r =
     (case r of
        [] \<Rightarrow> Some 0
      | e # ds \<Rightarrow>
          if e \<noteq> CHR ''e'' \<and> e \<noteq> CHR ''E'' then None
          else if startsWith ds (CHR ''+'') then map_option int (digitsOpt 10 (tl ds))
          else if startsWith ds (CHR ''-'') then map_option (\<lambda>n. - int n) (digitsOpt 10 (tl ds))
          else map_option int (digitsOpt 10 ds))"

definition pow10 :: "int \<Rightarrow> rat" where
  "pow10 k = (if 0 \<le> k then 10 ^ nat k else 1 / 10 ^ nat (- k))"

definition strUnsignedDecimalLiteral :: "string \<Rightarrow> jsnum" where
  "strUnsignedDecimalLiteral s =
     (if s = ''Infinity'' then PosInf
      else
        let ip = takeWhile isDecimalDigit s;
            r1 = dropWhile isDecimalDigit s;
            hasDot = startsWith r1 (CHR ''.'');
            fp = (if hasDot then takeWhile isDecimalDigit (tl r1) else []);
            r2 = (if hasDot then dropWhile isDecimalDigit (tl r1) else r1)
        in if ip = [] \<and> fp = [] then NaN
           else case exponentPart r2 of
                  None \<Rightarrow> NaN
                | Some e \<Rightarrow>
                    (case digitsValue 10 0 (ip @ fp) of
                       None \<Rightarrow> NaN
                     | Some m \<Rightarrow> Fin (of_nat m * pow10 (e - int (length fp)))))"

definition strDecimalLiteral :: "string \<Rightarrow> jsnum" where
  "strDecimalLiteral s =
     (if startsWith s (CHR ''+'') then strUnsignedDecimalLiteral (tl s)
      else if startsWith s (CHR ''-'') then negate (strUnsignedDecimalLiteral (tl s))
      else strUnsignedDecimalLiteral s)"

definition StringToNumber :: "string \<Rightarrow> jsnum" where
  "StringToNumber s =
     (let t = trim s
      in if t = [] then Fin 0
         else case nonDecimalIntegerLiteral t of
                Some n \<Rightarrow> Fin (of_nat n)
              | None \<Rightarrow> strDecimalLiteral t)"

text \<open>
  \<^verbatim>\<open>Number(val)\<close> for what a row lookup can give: a number is itself, a string is parsed,
  \<^verbatim>\<open>undefined\<close> is \<^verbatim>\<open>NaN\<close>.
\<close>

fun Number :: "jsval option \<Rightarrow> jsnum" where
  "Number (Some (Num n)) = n"
| "Number (Some (Str s)) = StringToNumber s"
| "Number None = NaN"

section \<open>Tables\<close>

text \<open>
  \<^verbatim>\<open>TableData\<close> of the detection module has a name, the ordered column names and the
  ordered rows; the chart component's \<^verbatim>\<open>TableData\<close> adds the optional \<^verbatim>\<open>colors\<close> and
  \<^verbatim>\<open>dataType\<close>. The second extends the first, so that a function of the first accepts both,
  as the structural types of the source do. A row is an object read only by key; a key
  taken from \<^verbatim>\<open>columns[i]\<close> past the end of the array is \<^verbatim>\<open>undefined\<close>, which as a
  property key is the string \<^verbatim>\<open>undefined\<close>. Rows are plain records: keys that an object
  inherits from its prototype are outside the model.
\<close>

record TableData =
  name :: string
  columns :: "string list"
  rows :: "Row list"

record ChartTableData = TableData +
  colors :: "string list option"
  dataType :: "DataType option"

definition columnKey :: "string list \<Rightarrow> nat \<Rightarrow> string" where
  "columnKey cols i = (if i < length cols then cols ! i else ''undefined'')"

section \<open>Detection of the data type\<close>

record DataTypeInfo =
  type :: DataType
  confidence :: Confidence
  recommendedCharts :: "ChartKind list"
  reason :: string

text \<open>
  The test the detection applies to a cell, three times in the source:
  \<^verbatim>\<open>typeof val === 'number' || !isNaN(Number(val))\<close>.
\<close>

definition numericLike :: "jsval option \<Rightarrow> bool" where
  "numericLike val =
     ((case val of Some (Num _) \<Rightarrow> True | _ \<Rightarrow> False) \<or> \<not> isNaN (Number val))"

text \<open>\<^verbatim>\<open>rows.map(row => row[columns[0]])\<close>, computed in cases 2 and 3.\<close>

definition firstColValues :: "string list \<Rightarrow> Row list \<Rightarrow> jsval option list" where
  "firstColValues cols rws = map (\<lambda>row. row (columnKey cols 0)) rws"

text \<open>
  Case 3 of \<^verbatim>\<open>detectDataType\<close> returns only from inside its inner \<^verbatim>\<open>if\<close>; otherwise
  control falls through to the cases after it, which is \<open>None\<close> here. The source computes
  \<^verbatim>\<open>allNumeric\<close> from the first column and never reads it.
\<close>

definition detectCase3 :: "string list \<Rightarrow> Row list \<Rightarrow> DataTypeInfo option" where
  "detectCase3 cols rws =
     (if length rws > 1 \<and> length cols \<ge> 3 then
        let allNumeric = list_all numericLike (firstColValues cols rws);
            otherColsNumeric =
              list_all (\<lambda>col. list_all (\<lambda>row. numericLike (row col)) rws) (drop 1 cols)
        in if otherColsNumeric then
             Some \<lparr>type = Multiseries, confidence = High,
                   recommendedCharts = [Line, Area, Bar],
                   reason = ''Multiple series untuk dibandingkan - cocok untuk melihat perbedaan tren''\<rparr>
           else None
      else None)"

definition detectDataType :: "'a TableData_scheme \<Rightarrow> DataTypeInfo" where
  "detectDataType data =
     (let cols = columns data; rws = rows data
      in if length rws = 1 \<and> length cols > 1 then
           \<lparr>type = Category, confidence = High, recommendedCharts = [Pie, Bar],
            reason = ''1 baris dengan banyak kategori - cocok untuk melihat proporsi/persentase''\<rparr>
         else if length rws > 1 \<and> length cols = 2 then
           let hasNumericFirstCol = list_all numericLike (firstColValues cols rws)
           in if hasNumericFirstCol then
                \<lparr>type = Timeseries, confidence = High, recommendedCharts = [Line, Area, Bar],
                 reason = ''Data berurutan dengan 1 metrik - cocok untuk melihat tren''\<rparr>
              else
                \<lparr>type = Timeseries, confidence = Medium, recommendedCharts = [Line, Area, Bar],
                 reason = ''Data dengan label dan 1 metrik - cocok untuk melihat perubahan''\<rparr>
         else case detectCase3 cols rws of
                Some info \<Rightarrow> info
              | None \<Rightarrow>
                  if length rws > 1 \<and> length cols = 1 then
                    \<lparr>type = Category, confidence = Low, recommendedCharts = [Bar],
                     reason = ''Data sederhana dengan 1 kolom''\<rparr>
                  else
                    \<lparr>type = Multiseries, confidence = Low, recommendedCharts = [Bar, Line],
                     reason = ''Struktur data kompleks - pilih visualisasi yang sesuai''\<rparr>)"

section \<open>Preparation of the chart data\<close>

text \<open>
  \<^verbatim>\<open>prepareChartData\<close> of the chart component returns an array of pie slices
  \<^verbatim>\<open>{name, value, color}\<close> in its category branch and an array of objects keyed by column
  name in the others. \<^verbatim>\<open>color\<close> is \<^verbatim>\<open>COLORS[index % COLORS.length]\<close>, which is
  \<^verbatim>\<open>undefined\<close> when the table brings an empty colour array.
\<close>

datatype ChartEntry = Slice string jsnum "string option" | ChartRow Row

definition DEFAULT_COLORS :: "string list" where
  "DEFAULT_COLORS = [''#3B82F6'', ''#10B981'', ''#F59E0B'', ''#EF4444'',
                     ''#8B5CF6'', ''#EC4899'', ''#14B8A6'', ''#F97316'']"

definition colorAt :: "string list \<Rightarrow> nat \<Rightarrow> string option" where
  "colorAt COLORS index =
     (if COLORS = [] then None else Some (COLORS ! (index mod length COLORS)))"

text \<open>
  \<^verbatim>\<open>typeof value === 'string' ? Number(value) || 0 : value || 0\<close>: a number in every
  case, and never \<^verbatim>\<open>NaN\<close>.
\<close>

definition numberOrZero :: "jsval option \<Rightarrow> jsnum" where
  "numberOrZero v =
     (case v of
        Some (Str s) \<Rightarrow> (let n = StringToNumber s in if truthyNum n then n else Fin 0)
      | Some (Num n) \<Rightarrow> if truthyNum n then n else Fin 0
      | None \<Rightarrow> Fin 0)"

text \<open>
  \<^verbatim>\<open>if (typeof value === 'string' && !isNaN(Number(value))) Number(value) else value || ''\<close>:
  a string is falsy when empty, a number when zero or \<^verbatim>\<open>NaN\<close>, and \<^verbatim>\<open>undefined\<close> always.
\<close>

definition numberOrRaw :: "jsval option \<Rightarrow> jsval" where
  "numberOrRaw v =
     (case v of
        Some (Str s) \<Rightarrow>
          if \<not> isNaN (StringToNumber s) then Num (StringToNumber s)
          else if s \<noteq> [] then Str s else Str []
      | Some (Num n) \<Rightarrow> if truthyNum n then Num n else Str []
      | None \<Rightarrow> Str [])"

text \<open>The decimal digits of a natural number, as a template literal prints a row number.\<close>

definition digitChar :: "nat \<Rightarrow> char" where
  "digitChar d = ''0123456789'' ! d"

fun showNat :: "nat \<Rightarrow> string" where
  "showNat n =
     (if n < 10 then [digitChar n]
      else showNat (n div 10) @ [digitChar (n mod 10)])"

declare showNat.simps [simp del]

text \<open>
  The three row builders: each starts from an object literal and assigns one key per
  column, in column order, so that a later assignment to the same key wins.
\<close>

definition categorySlices :: "string list \<Rightarrow> Row \<Rightarrow> string list \<Rightarrow> ChartEntry list" where
  "categorySlices cols row0 COLORS =
     map (\<lambda>(index, col). Slice col (numberOrZero (row0 col)) (colorAt COLORS index))
         (enumerate 0 cols)"

definition timeseriesRow :: "string list \<Rightarrow> nat \<Rightarrow> Row \<Rightarrow> Row" where
  "timeseriesRow cols rowIndex row =
     fold (\<lambda>col chartRow. chartRow(col \<mapsto> Num (numberOrZero (row col)))) cols
          [''index'' \<mapsto> Num (Fin (of_nat (rowIndex + 1))),
           ''indexLabel'' \<mapsto> Str (''Baris '' @ showNat (rowIndex + 1))]"

definition plainRow :: "string list \<Rightarrow> Row \<Rightarrow> Row" where
  "plainRow cols row = fold (\<lambda>col chartRow. chartRow(col \<mapsto> numberOrRaw (row col))) cols Map.empty"

text \<open>\<^verbatim>\<open>data.dataType || 'category'\<close>: a table that carries no data type is a category.\<close>

definition dataTypeOrCategory :: "'a ChartTableData_scheme \<Rightarrow> DataType" where
  "dataTypeOrCategory data = (case dataType data of Some t \<Rightarrow> t | None \<Rightarrow> Category)"

definition prepareChartData :: "'a ChartTableData_scheme \<Rightarrow> ChartEntry list" where
  "prepareChartData data =
     (let COLORS = (case colors data of Some cs \<Rightarrow> cs | None \<Rightarrow> DEFAULT_COLORS);
          dt = dataTypeOrCategory data
      in if dt = Category \<and> length (rows data) = 1 \<and> length (columns data) > 1 then
           categorySlices (columns data) (rows data ! 0) COLORS
         else if dt = Timeseries then
           map (\<lambda>(rowIndex, row). ChartRow (timeseriesRow (columns data) rowIndex row))
               (enumerate 0 (rows data))
         else if dt = Multiseries then
           map (\<lambda>row. ChartRow (plainRow (columns data) row)) (rows data)
         else
           map (\<lambda>row. ChartRow (plainRow (columns data) row)) (rows data))"


section \<open>Example tables\<close>

text \<open>The three scenarios of the specification, each stored with the type detected for it.\<close>

definition exSales :: ChartTableData where
  "exSales =
     \<lparr>name = ''Sales'', columns = [''Jan'', ''Feb'', ''Mar''],
      rows = [[''Jan'' \<mapsto> Str ''10'', ''Feb'' \<mapsto> Str ''20'', ''Mar'' \<mapsto> Str ''15'']],
      colors = None, dataType = Some Category\<rparr>"

definition exDayRevenue :: ChartTableData where
  "exDayRevenue =
     \<lparr>name = ''Revenue'', columns = [''Day'', ''Revenue''],
      rows = [[''Day'' \<mapsto> Str ''1'', ''Revenue'' \<mapsto> Str ''100''],
              [''Day'' \<mapsto> Str ''2'', ''Revenue'' \<mapsto> Str ''150'']],
      colors = None, dataType = Some Timeseries\<rparr>"

definition exRegions :: ChartTableData where
  "exRegions =
     \<lparr>name = ''Regions'', columns = [''Region'', ''Q1'', ''Q2''],
      rows = [[''Region'' \<mapsto> Str ''East'', ''Q1'' \<mapsto> Str ''5'', ''Q2'' \<mapsto> Str ''7''],
              [''Region'' \<mapsto> Str ''West'', ''Q1'' \<mapsto> Str ''3'', ''Q2'' \<mapsto> Str ''9'']],
      colors = None, dataType = Some Multiseries\<rparr>"

text \<open>The same regions with the first column rewritten: a number in one row, nothing in the other.\<close>

definition exRegionsRewritten :: ChartTableData where
  "exRegionsRewritten =
     \<lparr>name = ''Regions'', columns = [''Area'', ''Q1'', ''Q2''],
      rows = [[''Area'' \<mapsto> Num (Fin 1), ''Q1'' \<mapsto> Str ''5'', ''Q2'' \<mapsto> Str ''7''],
              [''Q1'' \<mapsto> Str ''3'', ''Q2'' \<mapsto> Str ''9'']],
      colors = None, dataType = Some Multiseries\<rparr>"

text \<open>Degenerate tables: no row, and no column.\<close>

definition exNoRows :: TableData where
  "exNoRows = \<lparr>name = ''Empty'', columns = [''A'', ''B''], rows = []\<rparr>"

definition exNoColumns :: TableData where
  "exNoColumns = \<lparr>name = ''Bare'', columns = [], rows = [Map.empty, Map.empty]\<rparr>"

text \<open>Two rows of two columns whose first column was left blank.\<close>

definition exBlankFirstColumn :: TableData where
  "exBlankFirstColumn =
     \<lparr>name = ''Blank'', columns = [''Label'', ''Amount''],
      rows = [[''Label'' \<mapsto> Str [], ''Amount'' \<mapsto> Str ''100''],
              [''Label'' \<mapsto> Str [], ''Amount'' \<mapsto> Str ''150'']]\<rparr>"

text \<open>Two rows of two columns whose first column holds month names.\<close>

definition exMonths :: TableData where
  "exMonths =
     \<lparr>name = ''Months'', columns = [''Month'', ''Amount''],
      rows = [[''Month'' \<mapsto> Str ''Jan'', ''Amount'' \<mapsto> Str ''100''],
              [''Month'' \<mapsto> Str ''Feb'', ''Amount'' \<mapsto> Str ''150'']]\<rparr>"

text \<open>Several rows of a single column, stored as a category.\<close>

definition exSingleColumn :: ChartTableData where
  "exSingleColumn =
     \<lparr>name = ''Scores'', columns = [''Score''],
      rows = [[''Score'' \<mapsto> Str ''4''], [''Score'' \<mapsto> Str ''8'']],
      colors = None, dataType = Some Category\<rparr>"



section \<open>The specification's reading of a numeric cell\<close>

text \<open>
  "Parses as a number" in the specification's own words, kept apart from \<open>numericLike\<close>,
  which is the test of the source: a value that is already a number, or a string that
  standard parsing converts to a number, the empty string excepted.
\<close>

definition spec_parsesAsNumber :: "jsval option \<Rightarrow> bool" where
  "spec_parsesAsNumber v =
     (case v of
        Some (Num n) \<Rightarrow> True
      | Some (Str s) \<Rightarrow> s \<noteq> [] \<and> \<not> isNaN (StringToNumber s)
      | None \<Rightarrow> False)"

section \<open>Evaluation and helper facts\<close>

lemmas parse_defs =
  StringToNumber_def trim_def isStrWhiteSpace_def nonDecimalIntegerLiteral_def
  strDecimalLiteral_def startsWith_def strUnsignedDecimalLiteral_def isDecimalDigit_def
  digitOf_def digitsOpt_def exponentPart_def pow10_def

lemma StringToNumber_empty: "StringToNumber [] = Fin 0"
  by (simp add: StringToNumber_def trim_def)

lemma numericLike_cases:
  "numericLike (Some (Num n))"
  "numericLike (Some (Str s)) = (StringToNumber s \<noteq> NaN)"
  "\<not> numericLike None"
  by (simp_all add: numericLike_def isNaN_def)

lemma otherCols_agree:
  assumes "length rs1 = length rs2"
    and "\<forall>i < length rs1. \<forall>c \<in> set cs. (rs1 ! i) c = (rs2 ! i) c"
  shows "list_all (\<lambda>col. list_all (\<lambda>row. numericLike (row col)) rs1) cs =
         list_all (\<lambda>col. list_all (\<lambda>row. numericLike (row col)) rs2) cs"
  using assms by (simp add: list_all_length)

section \<open>The suitability matrix\<close>

text \<open>
  Claim C1. The suitability lookup is a fixed table: for the shapes category, time series
  and multi-series and each of the four chart kinds the flag is the one of the
  specification's table (category: pie and bar; time series and multi-series: bar, line
  and area), and for the request shape auto every kind is suitable. The lookup takes a
  chart kind and a data type and nothing else, so no table content can reach it. The
  matrix of the manual-only module carries the same flags.
\<close>

theorem suitability_matrix:
  "suitable (getChartSuitability k s) =
     (case s of
        Auto \<Rightarrow> True
      | Category \<Rightarrow> k = Pie \<or> k = Bar
      | Timeseries \<Rightarrow> k = Bar \<or> k = Line \<or> k = Area
      | Multiseries \<Rightarrow> k = Bar \<or> k = Line \<or> k = Area)
   \<and> suitable (getChartSuitability_manual k m) =
     (case m of
        MCategory \<Rightarrow> k = Pie \<or> k = Bar
      | MTimeseries \<Rightarrow> k = Bar \<or> k = Line \<or> k = Area
      | MMultiseries \<Rightarrow> k = Bar \<or> k = Line \<or> k = Area)"
  by (cases k; cases s; cases m; simp)

theorem suitability_matrix_witness:
  "suitable (getChartSuitability Pie Category) \<and>
   suitable (getChartSuitability Line Category) = False \<and>
   suitable (getChartSuitability Pie Multiseries) = False \<and>
   suitable (getChartSuitability Area Auto) \<and>
   suitable (getChartSuitability_manual Bar MTimeseries)"
  using suitability_matrix [of Pie Category MCategory]
    suitability_matrix [of Line Category MCategory]
    suitability_matrix [of Pie Multiseries MCategory]
    suitability_matrix [of Area Auto MCategory]
    suitability_matrix [of Bar Auto MTimeseries]
  by simp

text \<open>
  Claim C10. The two encodings of the chart advice agree: for each of the four data types,
  auto included, a chart kind is among the recommended charts of
  \<^verbatim>\<open>getRecommendedCharts\<close> exactly when \<^verbatim>\<open>getChartSuitability\<close> calls it suitable.
\<close>

theorem recommended_iff_suitable:
  "k \<in> set (recommended (getRecommendedCharts s)) \<longleftrightarrow> suitable (getChartSuitability k s)"
  by (cases k; cases s; simp add: getRecommendedCharts_def allCharts_def)

theorem recommended_iff_suitable_witness:
  "Pie \<in> set (recommended (getRecommendedCharts Category)) \<and>
   Pie \<notin> set (recommended (getRecommendedCharts Timeseries)) \<and>
   Area \<in> set (recommended (getRecommendedCharts Auto))"
  using recommended_iff_suitable [of Pie Category]
    recommended_iff_suitable [of Pie Timeseries]
    recommended_iff_suitable [of Area Auto]
  by simp

section \<open>Detection\<close>

text \<open>
  Claim C4. A table of exactly one row and more than one column is detected as a
  category with high confidence.
\<close>

theorem single_row_is_category:
  assumes "length (rows d) = 1" and "length (columns d) > 1"
  shows "type (detectDataType d) = Category \<and> confidence (detectDataType d) = High"
  using assms by (simp add: detectDataType_def)

theorem single_row_is_category_witness:
  "length (rows exSales) = 1 \<and> length (columns exSales) > 1 \<and>
   type (detectDataType exSales) = Category \<and> confidence (detectDataType exSales) = High"
  using single_row_is_category [of exSales] by (simp add: exSales_def)

text \<open>
  Claim C8. Detection answers for every table. \<^verbatim>\<open>detectDataType\<close> has no
  \<^verbatim>\<open>throw\<close>, reads rows by key only (a missing key is \<^verbatim>\<open>undefined\<close>, not an error) and
  loops over the finite arrays alone, so its embedding is a total function with no error
  result. On a table with no row or with no column it answers multi-series with low
  confidence, the fallback at its end.
\<close>

theorem degenerate_table_fallback:
  assumes "rows d = [] \<or> columns d = []"
  shows "type (detectDataType d) = Multiseries \<and> confidence (detectDataType d) = Low"
  using assms by (auto simp add: detectDataType_def detectCase3_def)

theorem degenerate_table_fallback_witness:
  "rows exNoRows = [] \<and> columns exNoColumns = [] \<and>
   type (detectDataType exNoRows) = Multiseries \<and> confidence (detectDataType exNoRows) = Low \<and>
   type (detectDataType exNoColumns) = Multiseries \<and>
   confidence (detectDataType exNoColumns) = Low"
  using degenerate_table_fallback [of exNoRows] degenerate_table_fallback [of exNoColumns]
  by (simp add: exNoRows_def exNoColumns_def)

text \<open>
  Claim C9. Of a table with more than one row and three or more columns, detection reads
  nothing of the first column: two such tables with the same number of rows and the same
  columns after the first, whose rows agree on each of those columns, get the same
  result, reason and recommended charts included.
\<close>

theorem first_column_ignored:
  assumes "length (rows d1) > 1" and "length (columns d1) \<ge> 3"
    and "length (rows d2) > 1" and "length (columns d2) \<ge> 3"
    and "drop 1 (columns d1) = drop 1 (columns d2)"
    and "length (rows d1) = length (rows d2)"
    and "\<forall>i < length (rows d1). \<forall>c \<in> set (drop 1 (columns d1)).
           (rows d1 ! i) c = (rows d2 ! i) c"
  shows "detectDataType d1 = detectDataType d2"
proof -
  have "detectCase3 (columns d1) (rows d1) = detectCase3 (columns d2) (rows d2)"
    using assms otherCols_agree [of "rows d1" "rows d2" "drop 1 (columns d1)"]
    by (simp add: detectCase3_def)
  then show ?thesis
    using assms by (simp add: detectDataType_def Let_def)
qed

theorem first_column_ignored_witness:
  "firstColValues (columns exRegions) (rows exRegions) = [Some (Str ''East''), Some (Str ''West'')] \<and>
   firstColValues (columns exRegionsRewritten) (rows exRegionsRewritten) = [Some (Num (Fin 1)), None] \<and>
   detectDataType exRegions = detectDataType exRegionsRewritten"
  using first_column_ignored [of exRegions exRegionsRewritten]
  by (simp add: exRegions_def exRegionsRewritten_def firstColValues_def columnKey_def
      less_Suc_eq numeral_2_eq_2)

lemma firstColValues_all:
  "columns d \<noteq> [] \<Longrightarrow>
   list_all P (firstColValues (columns d) (rows d)) =
     (\<forall>row \<in> set (rows d). P (row (columns d ! 0)))"
  by (simp add: firstColValues_def columnKey_def list_all_iff)

text \<open>
  Claim C2, as the specification states it: a table of more than one row and exactly two
  columns is a time series, of high confidence exactly when every value of the first
  column parses as a number, where the empty string does not count as numeric. The source
  tests \<^verbatim>\<open>!isNaN(Number(val))\<close>, and \<^verbatim>\<open>Number('')\<close> is 0: a first column left blank in
  both rows is not numeric in the specification's reading, and the detection still
  answers with high confidence.
\<close>

theorem blank_first_column_counterexample:
  "length (rows exBlankFirstColumn) = 2 \<and> length (columns exBlankFirstColumn) = 2 \<and>
   firstColValues (columns exBlankFirstColumn) (rows exBlankFirstColumn) =
     [Some (Str []), Some (Str [])] \<and>
   spec_parsesAsNumber (Some (Str [])) = False \<and>
   type (detectDataType exBlankFirstColumn) = Timeseries \<and>
   confidence (detectDataType exBlankFirstColumn) = High"
  by (simp add: exBlankFirstColumn_def firstColValues_def columnKey_def spec_parsesAsNumber_def
      detectDataType_def numericLike_cases StringToNumber_empty)

text \<open>
  Claim C2, amended. A table of more than one row and exactly two columns is a time
  series. Its confidence is high exactly when every row's value in the first column is a
  number, or a string on which \<^verbatim>\<open>Number\<close> does not give \<^verbatim>\<open>NaN\<close>, and medium otherwise.
  A missing cell is not numeric; the empty string is, since it converts to 0.
\<close>

theorem two_columns_timeseries:
  assumes "length (rows d) > 1" and "length (columns d) = 2"
  shows "type (detectDataType d) = Timeseries \<and>
         (confidence (detectDataType d) = High \<longleftrightarrow>
            (\<forall>row \<in> set (rows d). numericLike (row (columns d ! 0)))) \<and>
         (confidence (detectDataType d) = Medium \<longleftrightarrow>
            \<not> (\<forall>row \<in> set (rows d). numericLike (row (columns d ! 0)))) \<and>
         numericLike (Some (Num n)) \<and>
         (numericLike (Some (Str s)) \<longleftrightarrow> StringToNumber s \<noteq> NaN) \<and>
         \<not> numericLike None \<and>
         numericLike (Some (Str []))"
proof -
  have ne: "columns d \<noteq> []" using assms by auto
  show ?thesis
    using assms firstColValues_all [OF ne, of numericLike]
    by (simp add: detectDataType_def Let_def numericLike_cases StringToNumber_empty)
qed

theorem two_columns_timeseries_witness:
  "confidence (detectDataType exDayRevenue) = High \<and>
   confidence (detectDataType exMonths) = Medium \<and>
   confidence (detectDataType exBlankFirstColumn) = High"
  using two_columns_timeseries [of exDayRevenue] two_columns_timeseries [of exMonths]
    two_columns_timeseries [of exBlankFirstColumn]
  by (simp add: exDayRevenue_def exMonths_def exBlankFirstColumn_def numericLike_def isNaN_def
      parse_defs)

lemma ChartKind_UNIV: "(UNIV :: ChartKind set) = {Pie, Bar, Line, Area}"
  using ChartKind.exhaust by auto

text \<open>
  Claim C5, as the specification states it: the recommended charts of a detection result
  depend on its type alone, a category recommending pie and bar at any confidence and a
  multi-series line, area and bar. The two low-confidence results of
  \<^verbatim>\<open>detectDataType\<close> carry shorter lists of their own: bar alone for the category of a
  single column, bar and line for the fallback.
\<close>

theorem low_confidence_charts_counterexample:
  "type (detectDataType exSingleColumn) = Category \<and>
   recommendedCharts (detectDataType exSingleColumn) = [Bar] \<and>
   Pie \<notin> set (recommendedCharts (detectDataType exSingleColumn)) \<and>
   type (detectDataType exNoRows) = Multiseries \<and>
   recommendedCharts (detectDataType exNoRows) = [Bar, Line] \<and>
   Area \<notin> set (recommendedCharts (detectDataType exNoRows))"
  by (simp add: exSingleColumn_def exNoRows_def detectDataType_def detectCase3_def)

text \<open>
  Claim C5, amended. \<^verbatim>\<open>getRecommendedCharts\<close> is a function of the type alone: pie
  and bar for a category; line, area and bar for a time series and for a multi-series; and
  its charts not recommended are exactly the other chart kinds. The list a detection
  result carries is that of its type whenever its confidence is high or medium; at low
  confidence it is bar alone for a category, and bar and line for a multi-series.
\<close>

theorem recommended_by_type:
  "set (recommended (getRecommendedCharts Category)) = {Pie, Bar} \<and>
   set (recommended (getRecommendedCharts Timeseries)) = {Line, Area, Bar} \<and>
   set (recommended (getRecommendedCharts Multiseries)) = {Line, Area, Bar} \<and>
   set (notRecommended (getRecommendedCharts s)) =
     UNIV - set (recommended (getRecommendedCharts s)) \<and>
   (confidence (detectDataType d) \<noteq> Low \<longrightarrow>
      recommendedCharts (detectDataType d) =
        recommended (getRecommendedCharts (type (detectDataType d)))) \<and>
   (confidence (detectDataType d) = Low \<longrightarrow>
      (type (detectDataType d) = Category \<and> recommendedCharts (detectDataType d) = [Bar]) \<or>
      (type (detectDataType d) = Multiseries \<and>
       recommendedCharts (detectDataType d) = [Bar, Line]))"
proof -
  have a: "set (notRecommended (getRecommendedCharts s)) =
             UNIV - set (recommended (getRecommendedCharts s))"
    by (cases s) (auto simp add: getRecommendedCharts_def allCharts_def ChartKind_UNIV)
  have b: "confidence (detectDataType d) \<noteq> Low \<longrightarrow>
      recommendedCharts (detectDataType d) =
        recommended (getRecommendedCharts (type (detectDataType d)))"
    by (simp add: detectDataType_def detectCase3_def getRecommendedCharts_def Let_def)
  have c: "confidence (detectDataType d) = Low \<longrightarrow>
      (type (detectDataType d) = Category \<and> recommendedCharts (detectDataType d) = [Bar]) \<or>
      (type (detectDataType d) = Multiseries \<and>
       recommendedCharts (detectDataType d) = [Bar, Line])"
    by (simp add: detectDataType_def detectCase3_def Let_def)
  show ?thesis using a b c by (simp add: getRecommendedCharts_def)
qed

theorem recommended_by_type_witness:
  "recommendedCharts (detectDataType exSales) = [Pie, Bar] \<and>
   set (notRecommended (getRecommendedCharts Category)) = {Line, Area} \<and>
   confidence (detectDataType exSingleColumn) = Low \<and>
   recommendedCharts (detectDataType exSingleColumn) = [Bar]"
  using recommended_by_type [of Category exSales] recommended_by_type [of Category exSingleColumn]
  by (simp add: exSales_def exSingleColumn_def detectDataType_def detectCase3_def
      getRecommendedCharts_def allCharts_def)

section \<open>Prepared chart data\<close>









text \<open>
  Claim C3, as the specification states it: the prepared sequence has as many entries as
  the table has columns whenever the type is category, whatever the number of rows. The
  transposition is guarded by \<^verbatim>\<open>rows.length === 1 && columns.length > 1\<close>; a category
  of two rows and one column, which detection reports with low confidence, takes the
  fallback at the end of \<^verbatim>\<open>prepareChartData\<close> and gets one entry per row.
\<close>

theorem single_column_category_counterexample:
  "dataType exSingleColumn = Some Category \<and>
   type (detectDataType exSingleColumn) = Category \<and>
   confidence (detectDataType exSingleColumn) = Low \<and>
   length (columns exSingleColumn) = 1 \<and>
   length (prepareChartData exSingleColumn) = 2"
  by (simp add: exSingleColumn_def detectDataType_def detectCase3_def prepareChartData_def
      dataTypeOrCategory_def)

text \<open>
  Claim C3, amended. The prepared sequence has as many entries as the table has columns
  when the type is category (or absent) and the table has exactly one row and more than
  one column; in every other case, a category of any other dimensions included, it has
  as many entries as the table has rows.
\<close>

theorem prepared_length:
  "length (prepareChartData d) =
     (if dataTypeOrCategory d = Category \<and> length (rows d) = 1 \<and> length (columns d) > 1
      then length (columns d) else length (rows d))"
  by (simp add: prepareChartData_def categorySlices_def Let_def)

theorem prepared_length_witness:
  "length (prepareChartData exSales) = 3 \<and> length (prepareChartData exSingleColumn) = 2 \<and>
   length (prepareChartData exDayRevenue) = 2 \<and> length (prepareChartData exRegions) = 2"
  using prepared_length [of exSales] prepared_length [of exSingleColumn]
    prepared_length [of exDayRevenue] prepared_length [of exRegions]
  by (simp add: exSales_def exSingleColumn_def exDayRevenue_def exRegions_def
      dataTypeOrCategory_def)







end
